theory Spec2Isabelle
  imports Complex_Main "HOL-Library.Word"
begin

unbundle bit_operations_syntax

section \<open>The AUV safety supervisor (Supervisors/AUV/Safety)\<close>

text \<open>
  A shallow embedding of the periodic task \<^verbatim>\<open>Supervisors::AUV::Safety::Task\<close>. The task
  object is a record, each \<^verbatim>\<open>consume\<close> overload and the periodic \<^verbatim>\<open>task()\<close> body is a
  function from the task state to the new state, and the messages the task sends
  (\<^verbatim>\<open>dispatch\<close>, \<^verbatim>\<open>setEntityState\<close>) are returned as a list, in the order they are sent.
  Times and distances, C++ \<^verbatim>\<open>float\<close> and \<^verbatim>\<open>double\<close>, are idealised as real numbers.
\<close>

subsection \<open>Constants\<close>

text \<open>Time to wait to check conditions after failed attempt.\<close>

definition c_fail_timeout :: real where
  "c_fail_timeout = 60"

text \<open>Distance to safety position threshold.\<close>

definition c_safety_dist :: real where
  "c_safety_dist = 50"

text \<open>Task arguments: heartbeat timeout, keep station, ascend with popup.\<close>

record Arguments =
  timeout :: real
  sk :: bool
  asc :: bool

text \<open>The enumeration \<^verbatim>\<open>DataReady\<close>; \<^verbatim>\<open>m_dr\<close> is an \<^verbatim>\<open>unsigned\<close>.\<close>

definition GOT_NOTHING :: "32 word" where "GOT_NOTHING = 0x00"
definition GOT_VSTATE :: "32 word" where "GOT_VSTATE = 0x01"
definition GOT_MEDIUM :: "32 word" where "GOT_MEDIUM = 0x02"
definition GOT_PCS :: "32 word" where "GOT_PCS = 0x04"
definition GOT_ALL :: "32 word" where "GOT_ALL = 0x07"

subsection \<open>Library classes used by the task\<close>

text \<open>
  Modelled from the spec: the class template \<^verbatim>\<open>Counter\<close> (the countdown timer), which is
  not among the source files. It has a threshold and the time elapsed since the last
  reset; it has overflowed when the elapsed time has reached the threshold; \<open>reset\<close>
  sets the elapsed time to zero; setting the threshold leaves the elapsed time as it is.
  The elapsed time grows with the wall clock: \<open>advance d\<close> is the passing of \<open>d\<close> seconds.
\<close>

record Counter =
  threshold :: real
  elapsed :: real

definition overflow :: "Counter \<Rightarrow> bool" where
  "overflow c = (elapsed c \<ge> threshold c)"

definition reset :: "Counter \<Rightarrow> Counter" where
  "reset c = c\<lparr>elapsed := 0\<rparr>"

definition setTop :: "real \<Rightarrow> Counter \<Rightarrow> Counter" where
  "setTop t c = c\<lparr>threshold := t\<rparr>"

definition advance :: "real \<Rightarrow> Counter \<Rightarrow> Counter" where
  "advance d c = c\<lparr>elapsed := elapsed c + d\<rparr>"

text \<open>
  Modelled from the spec: the medium reported by \<^verbatim>\<open>IMC::VehicleMedium\<close> and the class
  \<^verbatim>\<open>Monitors::MediumHandler\<close>, which are not among the source files. The handler keeps
  the medium of the last update, unknown before the first one; the vehicle is in water
  on the water surface and underwater.
\<close>

datatype Medium = VM_UNKNOWN | VM_AIR | VM_WATER | VM_UNDERWATER

definition MediumHandler_update :: "Medium \<Rightarrow> Medium \<Rightarrow> Medium" where
  "MediumHandler_update msg_medium h = msg_medium"

definition inWater :: "Medium \<Rightarrow> bool" where
  "inWater h = (h = VM_WATER \<or> h = VM_UNDERWATER)"

definition isUnderwater :: "Medium \<Rightarrow> bool" where
  "isUnderwater h = (h = VM_UNDERWATER)"

text \<open>
  Modelled from the spec: the fields of the IMC messages the task reads and writes; the
  message definitions are not among the source files. The plan control phase is blocked,
  ready or another one; the last outcome is failure or another one; the operation mode
  is boot, service, error or another one.
\<close>

datatype PcsState = PCS_BLOCKED | PCS_READY | PCS_OTHER

datatype PcsOutcome = LPO_FAILURE | LPO_OTHER

record PlanControlState =
  state :: PcsState
  last_outcome :: PcsOutcome

datatype OpMode = VS_BOOT | VS_SERVICE | VS_ERROR | VS_OTHER

datatype PgOp = OP_REQUEST | OP_OTHER

datatype PgCmd = CMD_EXECUTE | CMD_OTHER

record PlanGeneration =
  op :: PgOp
  cmd :: PgCmd
  plan_id :: string
  params :: string

datatype EntityStateKind = ESTA_NORMAL

datatype StatusCode = CODE_IDLE | CODE_ACTIVE

text \<open>
  The inbound messages the task binds to. A message source is a 16-bit IMC address. The
  estimated state is given by the latitude and longitude that \<^verbatim>\<open>Coordinates::toWGS84\<close>
  computes from it.
\<close>

datatype Message =
    IMC_EstimatedState real real
  | IMC_Heartbeat "16 word"
  | IMC_PlanControl "16 word"
  | IMC_PlanControlState PlanControlState
  | IMC_VehicleState OpMode
  | IMC_VehicleMedium Medium

text \<open>What the task sends.\<close>

datatype Output =
    Dispatch PlanGeneration
  | SetEntityState EntityStateKind StatusCode

text \<open>
  The function \<^verbatim>\<open>Coordinates::WGS84::distance\<close> (latitude, longitude and height of two
  points) is not among the source files; the handlers take it as a parameter.
\<close>

type_synonym distance_fn = "real \<Rightarrow> real \<Rightarrow> real \<Rightarrow> real \<Rightarrow> real \<Rightarrow> real \<Rightarrow> real"

subsection \<open>The task state\<close>

text \<open>
  The members of \<^verbatim>\<open>Task\<close>, and \<open>system_id\<close>, the value of \<^verbatim>\<open>getSystemId()\<close>.
\<close>

record Task =
  system_id :: "16 word"
  m_lost_coms_timer :: Counter
  m_fail_timer :: Counter
  m_medium :: Medium
  m_serv_err :: bool
  m_pcs :: PlanControlState
  m_pg :: PlanGeneration
  m_dr :: "32 word"
  m_is_near :: bool
  m_issued :: bool
  m_safety :: bool
  m_args :: Arguments

text \<open>
  The constructor initialises five members; the timers, the plan control state and the
  plan generation request are default-constructed by classes that are not among the
  source files, and are parameters here, as are the system identifier and the arguments.
  The medium handler starts with the unknown medium.
\<close>

definition Task_ctor ::
  "16 word \<Rightarrow> Arguments \<Rightarrow> Counter \<Rightarrow> Counter \<Rightarrow> PlanControlState \<Rightarrow> PlanGeneration \<Rightarrow> Task" where
  "Task_ctor sid args lt ft pcs0 pg0 =
     \<lparr>system_id = sid,
      m_lost_coms_timer = lt,
      m_fail_timer = ft,
      m_medium = VM_UNKNOWN,
      m_serv_err = False,
      m_pcs = pcs0,
      m_pg = pg0,
      m_dr = GOT_NOTHING,
      m_is_near = True,
      m_issued = False,
      m_safety = False,
      m_args = args\<rparr>"

definition onUpdateParameters :: "bool \<Rightarrow> Task \<Rightarrow> Task" where
  \<comment> \<open>the flag is \<^verbatim>\<open>paramChanged(m_args.timeout)\<close>\<close>
  "onUpdateParameters changed s =
     (if changed
      then s\<lparr>m_lost_coms_timer := setTop (timeout (m_args s)) (m_lost_coms_timer s)\<rparr>
      else s)"

definition onResourceInitialization :: "Task \<Rightarrow> Task \<times> Output list" where
  "onResourceInitialization s =
     (s\<lparr>m_pg := (m_pg s)\<lparr>op := OP_REQUEST, cmd := CMD_EXECUTE,
                           params := ''calibrate=false;ignore_errors=true''\<rparr>,
        m_fail_timer := setTop c_fail_timeout (m_fail_timer s)\<rparr>,
      [SetEntityState ESTA_NORMAL CODE_IDLE])"

subsection \<open>Message handlers\<close>

definition consume_EstimatedState :: "distance_fn \<Rightarrow> real \<Rightarrow> real \<Rightarrow> Task \<Rightarrow> Task" where
  "consume_EstimatedState wgs_distance lat lon s =
     (let rlat = 0; rlon = 0;
          dist = wgs_distance lat lon 0 rlat rlon 0
      in if dist > c_safety_dist
         then s\<lparr>m_is_near := False\<rparr>
         else s\<lparr>m_is_near := True\<rparr>)"

definition consume_Heartbeat :: "16 word \<Rightarrow> Task \<Rightarrow> Task" where
  "consume_Heartbeat src s =
     (if src = system_id s then s
      else if src AND 0x4000 = 0 then s
      else s\<lparr>m_lost_coms_timer := reset (m_lost_coms_timer s)\<rparr>)"

definition consume_PlanControl :: "16 word \<Rightarrow> Task \<Rightarrow> Task" where
  "consume_PlanControl src s =
     (if src \<noteq> system_id s
      then s\<lparr>m_issued := False, m_safety := False\<rparr>
      else s)"

definition consume_PlanControlState :: "PlanControlState \<Rightarrow> Task \<Rightarrow> Task" where
  "consume_PlanControlState msg s = s\<lparr>m_dr := m_dr s OR GOT_PCS, m_pcs := msg\<rparr>"

definition consume_VehicleState :: "OpMode \<Rightarrow> Task \<Rightarrow> Task" where
  "consume_VehicleState op_mode s =
     (let s1 = (if op_mode \<noteq> VS_BOOT then s\<lparr>m_dr := m_dr s OR GOT_VSTATE\<rparr> else s)
      in s1\<lparr>m_serv_err := (op_mode = VS_SERVICE \<or> op_mode = VS_ERROR)\<rparr>)"

definition consume_VehicleMedium :: "Medium \<Rightarrow> Task \<Rightarrow> Task" where
  "consume_VehicleMedium msg_medium s =
     (let s1 = s\<lparr>m_dr := m_dr s OR GOT_MEDIUM,
                 m_medium := MediumHandler_update msg_medium (m_medium s)\<rparr>
      in if isUnderwater (m_medium s1)
         then s1\<lparr>m_lost_coms_timer := reset (m_lost_coms_timer s1)\<rparr>
         else s1)"

fun consume :: "distance_fn \<Rightarrow> Message \<Rightarrow> Task \<Rightarrow> Task" where
  "consume wgs_distance (IMC_EstimatedState lat lon) s = consume_EstimatedState wgs_distance lat lon s"
| "consume wgs_distance (IMC_Heartbeat src) s = consume_Heartbeat src s"
| "consume wgs_distance (IMC_PlanControl src) s = consume_PlanControl src s"
| "consume wgs_distance (IMC_PlanControlState msg) s = consume_PlanControlState msg s"
| "consume wgs_distance (IMC_VehicleState op_mode) s = consume_VehicleState op_mode s"
| "consume wgs_distance (IMC_VehicleMedium msg_medium) s = consume_VehicleMedium msg_medium s"

subsection \<open>The periodic evaluation\<close>

text \<open>Checks if the vehicle is plan ready or blocked.\<close>

definition isIdle :: "Task \<Rightarrow> bool" where
  "isIdle s = (state (m_pcs s) = PCS_BLOCKED \<or> state (m_pcs s) = PCS_READY)"

text \<open>Checks if the vehicle last outcome is failure.\<close>

definition hasFailed :: "Task \<Rightarrow> bool" where
  "hasFailed s = (last_outcome (m_pcs s) = LPO_FAILURE)"

text \<open>Check if vehicle is near safety position.\<close>

definition isNear :: "Task \<Rightarrow> bool" where
  "isNear s = m_is_near s"

text \<open>Check if we need to move the vehicle to safe zone.\<close>

definition isSafe :: "Task \<Rightarrow> bool" where
  "isSafe s =
     (if isNear s then True
      else if m_safety s then True
      else if \<not> overflow (m_lost_coms_timer s) then True
      else if m_serv_err s \<and> isIdle s then False
      else if m_issued s then False
      else True)"

text \<open>Send system to safety.\<close>

definition goToSafety :: "Task \<Rightarrow> Task \<times> Output list" where
  "goToSafety s =
     (let s1 = s\<lparr>m_safety := True\<rparr>;
          s2 = s1\<lparr>m_pg := (m_pg s1)\<lparr>plan_id := ''safety_zone''\<rparr>\<rparr>
      in (s2, [Dispatch (m_pg s2)]))"

text \<open>
  The end of \<^verbatim>\<open>task()\<close>, from the test of the medium on: the suffix of the plan
  identifier, and the dispatch.
\<close>

definition task_issue :: "Task \<Rightarrow> Task \<times> Output list" where
  "task_issue s =
     (if isUnderwater (m_medium s)
      then (if \<not> asc (m_args s) then (s, [])
            else (let s1 = s\<lparr>m_pg := (m_pg s)\<lparr>plan_id := plan_id (m_pg s) @ ''surface''\<rparr>\<rparr>;
                      s2 = s1\<lparr>m_issued := True\<rparr>
                  in (s2, [Dispatch (m_pg s2), SetEntityState ESTA_NORMAL CODE_ACTIVE])))
      else (if \<not> sk (m_args s) then (s, [])
            else (let s1 = s\<lparr>m_pg := (m_pg s)\<lparr>plan_id := plan_id (m_pg s) @ ''sk''\<rparr>\<rparr>;
                      s2 = s1\<lparr>m_issued := True\<rparr>
                  in (s2, [Dispatch (m_pg s2), SetEntityState ESTA_NORMAL CODE_ACTIVE]))))"

definition task :: "Task \<Rightarrow> Task \<times> Output list" where
  "task s =
     (if m_dr s \<noteq> GOT_ALL then (s, [])
      else if \<not> inWater (m_medium s) then (s, [])
      else if \<not> isSafe s
           then goToSafety (s\<lparr>m_lost_coms_timer := reset (m_lost_coms_timer s)\<rparr>)
      else if \<not> sk (m_args s) \<and> \<not> asc (m_args s) then (s, [])
      else if \<not> m_serv_err s then (s, [])
      else if \<not> isIdle s then (s, [])
      else (let s1 = s\<lparr>m_pg := (m_pg s)\<lparr>plan_id := []\<rparr>\<rparr>
            in if hasFailed s1
               then (if \<not> overflow (m_fail_timer s1) then (s1, [])
                     else task_issue
                            (s1\<lparr>m_fail_timer := reset (m_fail_timer s1),
                                m_pg := (m_pg s1)\<lparr>plan_id := ''safety_''\<rparr>\<rparr>))
               else task_issue s1))"

subsection \<open>Runs of the task\<close>

text \<open>
  The runtime delivers a message, calls \<^verbatim>\<open>task()\<close>, or lets time pass; a run applies a
  list of such events in order and collects what the task sends.
\<close>

datatype Event = Deliver Message | Tick | Elapse real

fun step :: "distance_fn \<Rightarrow> Event \<Rightarrow> Task \<Rightarrow> Task \<times> Output list" where
  "step wgs_distance (Deliver msg) s = (consume wgs_distance msg s, [])"
| "step wgs_distance Tick s = task s"
| "step wgs_distance (Elapse d) s =
     (s\<lparr>m_lost_coms_timer := advance d (m_lost_coms_timer s),
        m_fail_timer := advance d (m_fail_timer s)\<rparr>, [])"

fun run :: "distance_fn \<Rightarrow> Event list \<Rightarrow> Task \<Rightarrow> Task \<times> Output list" where
  "run wgs_distance [] s = (s, [])"
| "run wgs_distance (e # es) s =
     (let (s1, out1) = step wgs_distance e s;
          (s2, out2) = run wgs_distance es s1
      in (s2, out1 @ out2))"

subsection \<open>Example scenarios\<close>

text \<open>
  Concrete inputs on which the results below are evaluated: a vehicle with address
  \<open>0x0015\<close> and the default arguments, started by the constructor, the parameter update
  and the resource initialisation, and the event lists of the scenarios A to E. The
  distance of the examples stands in for the WGS84 distance (radians to metres, on a
  sphere, by the sum of the differences).
\<close>

definition example_distance :: distance_fn where
  "example_distance lat lon h rlat rlon rh = 6371000 * (\<bar>lat - rlat\<bar> + \<bar>lon - rlon\<bar>)"

definition example_args :: Arguments where
  "example_args = \<lparr>timeout = 600, sk = True, asc = True\<rparr>"

definition example_ctor :: "Arguments \<Rightarrow> Task" where
  "example_ctor args =
     Task_ctor 0x0015 args
       \<lparr>threshold = 0, elapsed = 0\<rparr> \<lparr>threshold = 0, elapsed = 0\<rparr>
       \<lparr>state = PCS_BLOCKED, last_outcome = LPO_OTHER\<rparr>
       \<lparr>op = OP_REQUEST, cmd = CMD_EXECUTE, plan_id = [], params = []\<rparr>"

definition example_start :: "Arguments \<Rightarrow> Task" where
  "example_start args = fst (onResourceInitialization (onUpdateParameters True (example_ctor args)))"

definition scenario_A :: "Event list" where
  "scenario_A =
     [Deliver (IMC_VehicleState VS_SERVICE),
      Deliver (IMC_PlanControlState \<lparr>state = PCS_READY, last_outcome = LPO_OTHER\<rparr>),
      Deliver (IMC_EstimatedState (71 / 100) (- 15 / 100)),
      Elapse 700]"

definition scenario_B :: "Event list" where
  "scenario_B =
     [Deliver (IMC_VehicleState VS_SERVICE),
      Deliver (IMC_VehicleMedium VM_WATER),
      Deliver (IMC_PlanControlState \<lparr>state = PCS_READY, last_outcome = LPO_OTHER\<rparr>),
      Deliver (IMC_EstimatedState (71 / 100) (- 15 / 100)),
      Elapse 700]"

definition scenario_C :: "Event list" where
  "scenario_C =
     [Deliver (IMC_VehicleState VS_SERVICE),
      Deliver (IMC_VehicleMedium VM_WATER),
      Deliver (IMC_PlanControlState \<lparr>state = PCS_READY, last_outcome = LPO_OTHER\<rparr>),
      Deliver (IMC_EstimatedState 0 0),
      Elapse 700]"

definition scenario_D :: "Event list" where
  "scenario_D =
     [Deliver (IMC_VehicleState VS_ERROR),
      Deliver (IMC_VehicleMedium VM_UNDERWATER),
      Deliver (IMC_PlanControlState \<lparr>state = PCS_BLOCKED, last_outcome = LPO_OTHER\<rparr>),
      Deliver (IMC_EstimatedState 0 0),
      Elapse 700]"

definition scenario_E :: "Event list" where
  "scenario_E =
     [Deliver (IMC_VehicleState VS_SERVICE),
      Deliver (IMC_VehicleMedium VM_UNDERWATER),
      Deliver (IMC_PlanControlState \<lparr>state = PCS_READY, last_outcome = LPO_FAILURE\<rparr>),
      Deliver (IMC_EstimatedState 0 0)]"

definition example_state :: "Arguments \<Rightarrow> Event list \<Rightarrow> Task" where
  "example_state args evs = fst (run example_distance evs (example_start args))"

section \<open>Properties\<close>

lemmas handler_defs = consume_EstimatedState_def consume_Heartbeat_def consume_PlanControl_def
  consume_PlanControlState_def consume_VehicleState_def consume_VehicleMedium_def
  MediumHandler_update_def

lemmas example_defs = example_distance_def example_args_def example_ctor_def example_start_def
  Task_ctor_def onUpdateParameters_def onResourceInitialization_def setTop_def c_fail_timeout_def
  scenario_A_def scenario_B_def scenario_C_def scenario_D_def scenario_E_def example_state_def
  handler_defs isUnderwater_def inWater_def advance_def reset_def overflow_def
  c_safety_dist_def GOT_ALL_def GOT_NOTHING_def GOT_VSTATE_def GOT_MEDIUM_def GOT_PCS_def
  isSafe_def isNear_def isIdle_def hasFailed_def task_def task_issue_def goToSafety_def
  Let_def

subsection \<open>The safety verdict\<close>

text \<open>
  C1. In every task state, \<open>isSafe\<close> decides in this order: true if the vehicle is near
  the safety position; else true if the safety mode is active; else true if the lost
  communications timer has not overflowed; else false if the vehicle state is service or
  error and the plan control state is blocked or ready; else false if the task has issued
  a plan; else true.
\<close>

theorem isSafe_priority:
  "isSafe s =
     (if m_is_near s then True
      else if m_safety s then True
      else if \<not> overflow (m_lost_coms_timer s) then True
      else if m_serv_err s \<and> (state (m_pcs s) = PCS_BLOCKED \<or> state (m_pcs s) = PCS_READY)
        then False
      else if m_issued s then False
      else True)"
  by (simp add: isSafe_def isNear_def isIdle_def)

text \<open>
  One state for each branch, in the order of the claim: near (scenario C); safety mode
  active (scenario B and a tick); a console heartbeat just received; in service and ready
  with none of these (scenario B); a plan issued, then far away in another mode without
  heartbeat; and the same without a plan issued.
\<close>

theorem isSafe_priority_witness:
  "isSafe (example_state example_args scenario_C) \<and>
   isSafe (example_state example_args (scenario_B @ [Tick])) \<and>
   isSafe (example_state example_args (scenario_B @ [Deliver (IMC_Heartbeat 0x4001)])) \<and>
   \<not> isSafe (example_state example_args scenario_B) \<and>
   \<not> isSafe (example_state example_args
       (scenario_C @ [Tick, Deliver (IMC_EstimatedState (71 / 100) (- 15 / 100)),
                      Deliver (IMC_VehicleState VS_OTHER)])) \<and>
   isSafe (example_state example_args (scenario_B @ [Deliver (IMC_VehicleState VS_OTHER)]))"
  using isSafe_priority [of "example_state example_args scenario_C"]
        isSafe_priority [of "example_state example_args (scenario_B @ [Tick])"]
        isSafe_priority [of "example_state example_args
          (scenario_B @ [Deliver (IMC_Heartbeat 0x4001)])"]
        isSafe_priority [of "example_state example_args scenario_B"]
        isSafe_priority [of "example_state example_args
          (scenario_C @ [Tick, Deliver (IMC_EstimatedState (71 / 100) (- 15 / 100)),
                         Deliver (IMC_VehicleState VS_OTHER)])"]
        isSafe_priority [of "example_state example_args
          (scenario_B @ [Deliver (IMC_VehicleState VS_OTHER)])"]
  by (simp add: example_defs)

subsection \<open>A tick with a safe verdict\<close>

text \<open>
  C2. On a tick with all data received, the vehicle in water and a safe verdict: something
  is sent only if keep station or ascend is enabled, the vehicle state is service or error
  and the plan control state is idle; what is sent is then the plan generation request
  followed by the active entity state, \<open>m_issued\<close> is set, and the plan identifier is
  \<open>surface\<close> (underwater, ascend enabled, last outcome not failure), \<open>sk\<close> (at the
  surface, keep station enabled, last outcome not failure), \<open>safety_surface\<close> or
  \<open>safety_sk\<close> (the same media and flags, last outcome failure, the fail timer
  overflowed and now reset); after a failure with the fail timer not overflowed nothing
  is sent. Conversely, in service or error and idle, each of the four situations
  produces its request: the tick sends the request with that identifier and the active
  entity state, sets \<open>m_issued\<close>, keeps the identifier in the request, resets the fail
  timer in the two cases after a failure, and changes nothing else.
\<close>

theorem task_safe_holding:
  assumes "m_dr s = GOT_ALL" and "inWater (m_medium s)" and "isSafe s"
  shows
    "(snd (task s) \<noteq> [] \<longrightarrow>
        (sk (m_args s) \<or> asc (m_args s)) \<and> m_serv_err s \<and> isIdle s) \<and>
     (snd (task s) = [] \<or>
        (\<exists>pid. snd (task s) = [Dispatch ((m_pg s)\<lparr>plan_id := pid\<rparr>),
                                 SetEntityState ESTA_NORMAL CODE_ACTIVE] \<and>
           m_issued (fst (task s)) \<and>
           (pid = ''surface'' \<and> m_medium s = VM_UNDERWATER \<and> asc (m_args s) \<and>
              \<not> hasFailed s \<and> m_fail_timer (fst (task s)) = m_fail_timer s
            \<or> pid = ''sk'' \<and> m_medium s = VM_WATER \<and> sk (m_args s) \<and>
              \<not> hasFailed s \<and> m_fail_timer (fst (task s)) = m_fail_timer s
            \<or> pid = ''safety_surface'' \<and> m_medium s = VM_UNDERWATER \<and> asc (m_args s) \<and>
              hasFailed s \<and> overflow (m_fail_timer s) \<and>
              m_fail_timer (fst (task s)) = reset (m_fail_timer s)
            \<or> pid = ''safety_sk'' \<and> m_medium s = VM_WATER \<and> sk (m_args s) \<and>
              hasFailed s \<and> overflow (m_fail_timer s) \<and>
              m_fail_timer (fst (task s)) = reset (m_fail_timer s)))) \<and>
     (hasFailed s \<and> \<not> overflow (m_fail_timer s) \<longrightarrow> snd (task s) = []) \<and>
     (m_serv_err s \<and> isIdle s \<and> m_medium s = VM_UNDERWATER \<and> asc (m_args s) \<and>
      \<not> hasFailed s \<longrightarrow>
        task s =
          (s\<lparr>m_pg := (m_pg s)\<lparr>plan_id := ''surface''\<rparr>, m_issued := True\<rparr>,
           [Dispatch ((m_pg s)\<lparr>plan_id := ''surface''\<rparr>),
            SetEntityState ESTA_NORMAL CODE_ACTIVE])) \<and>
     (m_serv_err s \<and> isIdle s \<and> m_medium s = VM_WATER \<and> sk (m_args s) \<and>
      \<not> hasFailed s \<longrightarrow>
        task s =
          (s\<lparr>m_pg := (m_pg s)\<lparr>plan_id := ''sk''\<rparr>, m_issued := True\<rparr>,
           [Dispatch ((m_pg s)\<lparr>plan_id := ''sk''\<rparr>),
            SetEntityState ESTA_NORMAL CODE_ACTIVE])) \<and>
     (m_serv_err s \<and> isIdle s \<and> m_medium s = VM_UNDERWATER \<and> asc (m_args s) \<and>
      hasFailed s \<and> overflow (m_fail_timer s) \<longrightarrow>
        task s =
          (s\<lparr>m_fail_timer := reset (m_fail_timer s),
             m_pg := (m_pg s)\<lparr>plan_id := ''safety_surface''\<rparr>, m_issued := True\<rparr>,
           [Dispatch ((m_pg s)\<lparr>plan_id := ''safety_surface''\<rparr>),
            SetEntityState ESTA_NORMAL CODE_ACTIVE])) \<and>
     (m_serv_err s \<and> isIdle s \<and> m_medium s = VM_WATER \<and> sk (m_args s) \<and>
      hasFailed s \<and> overflow (m_fail_timer s) \<longrightarrow>
        task s =
          (s\<lparr>m_fail_timer := reset (m_fail_timer s),
             m_pg := (m_pg s)\<lparr>plan_id := ''safety_sk''\<rparr>, m_issued := True\<rparr>,
           [Dispatch ((m_pg s)\<lparr>plan_id := ''safety_sk''\<rparr>),
            SetEntityState ESTA_NORMAL CODE_ACTIVE]))"
proof (intro conjI)
  show "snd (task s) \<noteq> [] \<longrightarrow>
        (sk (m_args s) \<or> asc (m_args s)) \<and> m_serv_err s \<and> isIdle s"
    using assms by (auto simp add: task_def split: if_splits)
next
  show "snd (task s) = [] \<or>
        (\<exists>pid. snd (task s) = [Dispatch ((m_pg s)\<lparr>plan_id := pid\<rparr>),
                                 SetEntityState ESTA_NORMAL CODE_ACTIVE] \<and>
           m_issued (fst (task s)) \<and>
           (pid = ''surface'' \<and> m_medium s = VM_UNDERWATER \<and> asc (m_args s) \<and>
              \<not> hasFailed s \<and> m_fail_timer (fst (task s)) = m_fail_timer s
            \<or> pid = ''sk'' \<and> m_medium s = VM_WATER \<and> sk (m_args s) \<and>
              \<not> hasFailed s \<and> m_fail_timer (fst (task s)) = m_fail_timer s
            \<or> pid = ''safety_surface'' \<and> m_medium s = VM_UNDERWATER \<and> asc (m_args s) \<and>
              hasFailed s \<and> overflow (m_fail_timer s) \<and>
              m_fail_timer (fst (task s)) = reset (m_fail_timer s)
            \<or> pid = ''safety_sk'' \<and> m_medium s = VM_WATER \<and> sk (m_args s) \<and>
              hasFailed s \<and> overflow (m_fail_timer s) \<and>
              m_fail_timer (fst (task s)) = reset (m_fail_timer s)))"
    using assms
    by (cases "m_medium s")
       (auto simp add: task_def task_issue_def hasFailed_def isUnderwater_def inWater_def Let_def)
next
  show "hasFailed s \<and> \<not> overflow (m_fail_timer s) \<longrightarrow> snd (task s) = []"
    using assms by (simp add: task_def hasFailed_def Let_def)
next
  show "m_serv_err s \<and> isIdle s \<and> m_medium s = VM_UNDERWATER \<and> asc (m_args s) \<and>
      \<not> hasFailed s \<longrightarrow>
        task s =
          (s\<lparr>m_pg := (m_pg s)\<lparr>plan_id := ''surface''\<rparr>, m_issued := True\<rparr>,
           [Dispatch ((m_pg s)\<lparr>plan_id := ''surface''\<rparr>),
            SetEntityState ESTA_NORMAL CODE_ACTIVE])"
    using assms
    by (simp add: task_def task_issue_def hasFailed_def isUnderwater_def inWater_def Let_def)
next
  show "m_serv_err s \<and> isIdle s \<and> m_medium s = VM_WATER \<and> sk (m_args s) \<and>
      \<not> hasFailed s \<longrightarrow>
        task s =
          (s\<lparr>m_pg := (m_pg s)\<lparr>plan_id := ''sk''\<rparr>, m_issued := True\<rparr>,
           [Dispatch ((m_pg s)\<lparr>plan_id := ''sk''\<rparr>),
            SetEntityState ESTA_NORMAL CODE_ACTIVE])"
    using assms
    by (simp add: task_def task_issue_def hasFailed_def isUnderwater_def inWater_def Let_def)
next
  show "m_serv_err s \<and> isIdle s \<and> m_medium s = VM_UNDERWATER \<and> asc (m_args s) \<and>
      hasFailed s \<and> overflow (m_fail_timer s) \<longrightarrow>
        task s =
          (s\<lparr>m_fail_timer := reset (m_fail_timer s),
             m_pg := (m_pg s)\<lparr>plan_id := ''safety_surface''\<rparr>, m_issued := True\<rparr>,
           [Dispatch ((m_pg s)\<lparr>plan_id := ''safety_surface''\<rparr>),
            SetEntityState ESTA_NORMAL CODE_ACTIVE])"
    using assms
    by (simp add: task_def task_issue_def hasFailed_def isUnderwater_def inWater_def Let_def)
next
  show "m_serv_err s \<and> isIdle s \<and> m_medium s = VM_WATER \<and> sk (m_args s) \<and>
      hasFailed s \<and> overflow (m_fail_timer s) \<longrightarrow>
        task s =
          (s\<lparr>m_fail_timer := reset (m_fail_timer s),
             m_pg := (m_pg s)\<lparr>plan_id := ''safety_sk''\<rparr>, m_issued := True\<rparr>,
           [Dispatch ((m_pg s)\<lparr>plan_id := ''safety_sk''\<rparr>),
            SetEntityState ESTA_NORMAL CODE_ACTIVE])"
    using assms
    by (simp add: task_def task_issue_def hasFailed_def isUnderwater_def inWater_def Let_def)
qed

text \<open>
  The four requests and the refusal, each at a state reached by a run: scenario C
  (\<open>sk\<close>), scenario D (\<open>surface\<close>), scenario E 100 seconds after the failure
  (\<open>safety_surface\<close>), the same at the surface (\<open>safety_sk\<close>), and scenario E at once,
  before the fail timer has overflowed (nothing).
\<close>

theorem task_safe_holding_witness:
  "snd (task (example_state example_args scenario_C)) =
     [Dispatch \<lparr>op = OP_REQUEST, cmd = CMD_EXECUTE, plan_id = ''sk'',
                params = ''calibrate=false;ignore_errors=true''\<rparr>,
      SetEntityState ESTA_NORMAL CODE_ACTIVE] \<and>
   snd (task (example_state example_args scenario_D)) =
     [Dispatch \<lparr>op = OP_REQUEST, cmd = CMD_EXECUTE, plan_id = ''surface'',
                params = ''calibrate=false;ignore_errors=true''\<rparr>,
      SetEntityState ESTA_NORMAL CODE_ACTIVE] \<and>
   snd (task (example_state example_args (scenario_E @ [Elapse 100]))) =
     [Dispatch \<lparr>op = OP_REQUEST, cmd = CMD_EXECUTE, plan_id = ''safety_surface'',
                params = ''calibrate=false;ignore_errors=true''\<rparr>,
      SetEntityState ESTA_NORMAL CODE_ACTIVE] \<and>
   snd (task (example_state example_args
          (scenario_E @ [Deliver (IMC_VehicleMedium VM_WATER), Elapse 100]))) =
     [Dispatch \<lparr>op = OP_REQUEST, cmd = CMD_EXECUTE, plan_id = ''safety_sk'',
                params = ''calibrate=false;ignore_errors=true''\<rparr>,
      SetEntityState ESTA_NORMAL CODE_ACTIVE] \<and>
   m_fail_timer (fst (task (example_state example_args (scenario_E @ [Elapse 100])))) =
     \<lparr>threshold = 60, elapsed = 0\<rparr> \<and>
   m_issued (fst (task (example_state example_args scenario_D))) \<and>
   snd (task (example_state example_args scenario_E)) = []"
proof -
  let ?c = "example_state example_args scenario_C"
  let ?d = "example_state example_args scenario_D"
  let ?e = "example_state example_args (scenario_E @ [Elapse 100])"
  let ?f = "example_state example_args
              (scenario_E @ [Deliver (IMC_VehicleMedium VM_WATER), Elapse 100])"
  let ?g = "example_state example_args scenario_E"
  have c: "m_dr ?c = GOT_ALL" "inWater (m_medium ?c)" "isSafe ?c"
    by (simp_all add: example_defs)
  have d: "m_dr ?d = GOT_ALL" "inWater (m_medium ?d)" "isSafe ?d"
    by (simp_all add: example_defs)
  have e: "m_dr ?e = GOT_ALL" "inWater (m_medium ?e)" "isSafe ?e"
    by (simp_all add: example_defs)
  have f: "m_dr ?f = GOT_ALL" "inWater (m_medium ?f)" "isSafe ?f"
    by (simp_all add: example_defs)
  have g: "m_dr ?g = GOT_ALL" "inWater (m_medium ?g)" "isSafe ?g"
    by (simp_all add: example_defs)
  have sk_sent: "snd (task ?c) =
     [Dispatch \<lparr>op = OP_REQUEST, cmd = CMD_EXECUTE, plan_id = ''sk'',
                params = ''calibrate=false;ignore_errors=true''\<rparr>,
      SetEntityState ESTA_NORMAL CODE_ACTIVE]"
    using task_safe_holding [OF c] by (simp add: example_defs)
  have surface_sent: "snd (task ?d) =
     [Dispatch \<lparr>op = OP_REQUEST, cmd = CMD_EXECUTE, plan_id = ''surface'',
                params = ''calibrate=false;ignore_errors=true''\<rparr>,
      SetEntityState ESTA_NORMAL CODE_ACTIVE]" and issued: "m_issued (fst (task ?d))"
    using task_safe_holding [OF d] by (simp_all add: example_defs)
  have safety_surface_sent: "snd (task ?e) =
     [Dispatch \<lparr>op = OP_REQUEST, cmd = CMD_EXECUTE, plan_id = ''safety_surface'',
                params = ''calibrate=false;ignore_errors=true''\<rparr>,
      SetEntityState ESTA_NORMAL CODE_ACTIVE]"
    and timer: "m_fail_timer (fst (task ?e)) = \<lparr>threshold = 60, elapsed = 0\<rparr>"
    using task_safe_holding [OF e] by (simp_all add: example_defs)
  have safety_sk_sent: "snd (task ?f) =
     [Dispatch \<lparr>op = OP_REQUEST, cmd = CMD_EXECUTE, plan_id = ''safety_sk'',
                params = ''calibrate=false;ignore_errors=true''\<rparr>,
      SetEntityState ESTA_NORMAL CODE_ACTIVE]"
    using task_safe_holding [OF f] by (simp add: example_defs)
  have refused: "snd (task ?g) = []"
    using task_safe_holding [OF g] by (simp add: example_defs)
  from sk_sent surface_sent safety_surface_sent safety_sk_sent timer issued refused
  show ?thesis by simp
qed

subsection \<open>A tick with an unsafe verdict\<close>

text \<open>
  Nothing but the resource initialisation writes the operation, the command and the
  parameters of the plan generation request.
\<close>

lemma step_pg_fixed:
  "op (m_pg (fst (step wgs e s))) = op (m_pg s) \<and>
   cmd (m_pg (fst (step wgs e s))) = cmd (m_pg s) \<and>
   params (m_pg (fst (step wgs e s))) = params (m_pg s)"
proof (cases e)
  case (Deliver msg)
  then show ?thesis by (cases msg) (simp_all add: handler_defs Let_def)
next
  case Tick
  then show ?thesis
    by (simp add: task_def task_issue_def goToSafety_def Let_def)
next
  case (Elapse d)
  then show ?thesis by simp
qed

lemma run_pg_fixed:
  "op (m_pg (fst (run wgs evs s))) = op (m_pg s) \<and>
   cmd (m_pg (fst (run wgs evs s))) = cmd (m_pg s) \<and>
   params (m_pg (fst (run wgs evs s))) = params (m_pg s)"
proof (induction evs arbitrary: s)
  case Nil
  then show ?case by simp
next
  case (Cons e es)
  show ?case
    using Cons.IH [of "fst (step wgs e s)"] step_pg_fixed [of wgs e s]
    by (simp add: split_beta)
qed

text \<open>
  C3. In a state \<open>s\<close> reached from the resource initialisation by any events, with all
  data received, the vehicle in water and an unsafe verdict, a tick resets the lost
  communications timer, sets \<open>m_safety\<close>, sends exactly one message, the request to
  execute the plan \<open>safety_zone\<close> with the parameters
  \<open>calibrate=false;ignore_errors=true\<close>, and changes nothing else but the plan
  identifier kept in the request.
\<close>

theorem task_unsafe_goes_to_safety:
  assumes "s = fst (run wgs evs (fst (onResourceInitialization s0)))"
    and "m_dr s = GOT_ALL" and "inWater (m_medium s)" and "\<not> isSafe s"
  shows "task s =
     (s\<lparr>m_lost_coms_timer := reset (m_lost_coms_timer s),
        m_safety := True,
        m_pg := \<lparr>op = OP_REQUEST, cmd = CMD_EXECUTE, plan_id = ''safety_zone'',
                 params = ''calibrate=false;ignore_errors=true''\<rparr>\<rparr>,
      [Dispatch \<lparr>op = OP_REQUEST, cmd = CMD_EXECUTE, plan_id = ''safety_zone'',
                 params = ''calibrate=false;ignore_errors=true''\<rparr>])"
proof -
  have "op (m_pg s) = OP_REQUEST \<and> cmd (m_pg s) = CMD_EXECUTE \<and>
        params (m_pg s) = ''calibrate=false;ignore_errors=true''"
    using run_pg_fixed [of wgs evs "fst (onResourceInitialization s0)"] assms(1)
    by (simp add: onResourceInitialization_def)
  then have "(m_pg s)\<lparr>plan_id := ''safety_zone''\<rparr> =
     \<lparr>op = OP_REQUEST, cmd = CMD_EXECUTE, plan_id = ''safety_zone'',
      params = ''calibrate=false;ignore_errors=true''\<rparr>"
    by (cases "m_pg s") simp
  then show ?thesis
    using assms(2-4) by (simp add: task_def goToSafety_def Let_def)
qed

text \<open>Scenario B: at the surface, far from the position, no heartbeat for 700 seconds.\<close>

theorem task_unsafe_goes_to_safety_witness:
  "snd (task (fst (run example_distance scenario_B (example_start example_args)))) =
     [Dispatch \<lparr>op = OP_REQUEST, cmd = CMD_EXECUTE, plan_id = ''safety_zone'',
                params = ''calibrate=false;ignore_errors=true''\<rparr>]"
proof -
  let ?boot = "onUpdateParameters True (example_ctor example_args)"
  let ?s = "fst (run example_distance scenario_B (example_start example_args))"
  have reached: "?s = fst (run example_distance scenario_B (fst (onResourceInitialization ?boot)))"
    by (simp only: example_start_def)
  have "m_dr ?s = GOT_ALL" and "inWater (m_medium ?s)" and "\<not> isSafe ?s"
    by (simp_all add: example_defs)
  from task_unsafe_goes_to_safety [OF reached this] show ?thesis by simp
qed

subsection \<open>The guard of the tick\<close>

text \<open>
  A tick leaves at once unless \<open>m_dr\<close> is \<open>GOT_ALL\<close> and the vehicle is in water. The
  handlers only ever set bits of \<open>m_dr\<close>, all of them bits of \<open>GOT_ALL\<close>, so once
  \<open>m_dr\<close> is \<open>GOT_ALL\<close> it stays so, and a run that has sent something ends with
  \<open>m_dr = GOT_ALL\<close>.
\<close>

lemma task_guard:
  "m_dr s AND GOT_VSTATE = 0 \<or> m_dr s AND GOT_MEDIUM = 0 \<or> m_dr s AND GOT_PCS = 0 \<or>
     \<not> inWater (m_medium s) \<Longrightarrow> task s = (s, [])"
  by (auto simp add: task_def GOT_ALL_def GOT_VSTATE_def GOT_MEDIUM_def GOT_PCS_def)

lemma task_m_dr: "m_dr (fst (task s)) = m_dr s"
  by (simp add: task_def task_issue_def goToSafety_def Let_def)

lemma task_sends_ready: "snd (task s) \<noteq> [] \<Longrightarrow> m_dr s = GOT_ALL"
  by (simp add: task_def split: if_splits)

lemma step_sends_ready: "snd (step wgs e s) \<noteq> [] \<Longrightarrow> m_dr s = GOT_ALL"
  by (cases e) (simp_all add: task_sends_ready)

lemma step_ready_stays: "m_dr s = GOT_ALL \<Longrightarrow> m_dr (fst (step wgs e s)) = GOT_ALL"
proof (cases e)
  case (Deliver msg)
  assume "m_dr s = GOT_ALL"
  with Deliver show ?thesis
    by (cases msg)
       (simp_all add: handler_defs Let_def GOT_ALL_def GOT_VSTATE_def GOT_MEDIUM_def GOT_PCS_def)
next
  case Tick
  assume "m_dr s = GOT_ALL"
  with Tick show ?thesis by (simp add: task_m_dr)
next
  case (Elapse d)
  assume "m_dr s = GOT_ALL"
  with Elapse show ?thesis by simp
qed

lemma run_ready_stays: "m_dr s = GOT_ALL \<Longrightarrow> m_dr (fst (run wgs evs s)) = GOT_ALL"
proof (induction evs arbitrary: s)
  case Nil
  then show ?case by simp
next
  case (Cons e es)
  from Cons.prems have "m_dr (fst (step wgs e s)) = GOT_ALL" by (rule step_ready_stays)
  then have "m_dr (fst (run wgs es (fst (step wgs e s)))) = GOT_ALL" by (rule Cons.IH)
  then show ?case by (simp add: split_beta)
qed

lemma run_sends_ready: "snd (run wgs evs s) \<noteq> [] \<Longrightarrow> m_dr (fst (run wgs evs s)) = GOT_ALL"
proof (induction evs arbitrary: s)
  case Nil
  then show ?case by simp
next
  case (Cons e es)
  let ?s1 = "fst (step wgs e s)"
  show ?case
  proof (cases "snd (step wgs e s) = []")
    case True
    with Cons.prems have "snd (run wgs es ?s1) \<noteq> []" by (simp add: split_beta)
    then have "m_dr (fst (run wgs es ?s1)) = GOT_ALL" by (rule Cons.IH)
    then show ?thesis by (simp add: split_beta)
  next
    case False
    then have "m_dr s = GOT_ALL" by (rule step_sends_ready)
    then have "m_dr (fst (run wgs (e # es) s)) = GOT_ALL" by (rule run_ready_stays)
    then show ?thesis .
  qed
qed

lemma run_append:
  "run wgs (evs @ evs') s =
     (let (s1, out1) = run wgs evs s; (s2, out2) = run wgs evs' s1 in (s2, out1 @ out2))"
  by (induction evs arbitrary: s) (simp_all add: split_beta)

lemma bit_unset_not_ready:
  "d AND GOT_VSTATE = 0 \<or> d AND GOT_MEDIUM = 0 \<or> d AND GOT_PCS = 0 \<Longrightarrow> d \<noteq> GOT_ALL"
  by (auto simp add: GOT_ALL_def GOT_VSTATE_def GOT_MEDIUM_def GOT_PCS_def)

text \<open>
  C4. Let \<open>s\<close> be the state after any events from any state \<open>s0\<close> (the constructed
  task among them). While one of the bits \<open>GOT_VSTATE\<close>, \<open>GOT_MEDIUM\<close>, \<open>GOT_PCS\<close>
  is unset in \<open>s\<close>, or the vehicle is not in water, a tick sends nothing and leaves the
  state as it is, so that the run with this tick added is the run without it. And while
  one of the three bits is unset, the whole run up to \<open>s\<close> has sent nothing.
\<close>

theorem task_waits_for_data:
  assumes "s = fst (run wgs evs s0)"
  shows
    "(m_dr s AND GOT_VSTATE = 0 \<or> m_dr s AND GOT_MEDIUM = 0 \<or> m_dr s AND GOT_PCS = 0 \<or>
        \<not> inWater (m_medium s) \<longrightarrow>
          task s = (s, []) \<and> run wgs (evs @ [Tick]) s0 = run wgs evs s0) \<and>
     (m_dr s AND GOT_VSTATE = 0 \<or> m_dr s AND GOT_MEDIUM = 0 \<or> m_dr s AND GOT_PCS = 0 \<longrightarrow>
          snd (run wgs evs s0) = [])"
proof (intro conjI impI)
  assume guard: "m_dr s AND GOT_VSTATE = 0 \<or> m_dr s AND GOT_MEDIUM = 0 \<or>
    m_dr s AND GOT_PCS = 0 \<or> \<not> inWater (m_medium s)"
  then show idle: "task s = (s, [])" by (rule task_guard)
  show "run wgs (evs @ [Tick]) s0 = run wgs evs s0"
    using idle assms by (simp add: run_append split_beta)
next
  assume "m_dr s AND GOT_VSTATE = 0 \<or> m_dr s AND GOT_MEDIUM = 0 \<or> m_dr s AND GOT_PCS = 0"
  then have "m_dr s \<noteq> GOT_ALL" by (rule bit_unset_not_ready)
  with assms show "snd (run wgs evs s0) = []"
    using run_sends_ready [of wgs evs s0] by blast
qed

text \<open>Scenario A: no medium received yet.\<close>

theorem task_waits_for_data_witness:
  "m_dr (fst (run example_distance scenario_A (example_start example_args))) AND GOT_MEDIUM = 0 \<and>
   run example_distance (scenario_A @ [Tick]) (example_start example_args) =
     run example_distance scenario_A (example_start example_args) \<and>
   snd (run example_distance scenario_A (example_start example_args)) = []"
proof -
  have "m_dr (fst (run example_distance scenario_A (example_start example_args))) AND GOT_MEDIUM = 0"
    by (simp add: example_defs)
  with task_waits_for_data [OF refl, of example_distance scenario_A "example_start example_args"]
  show ?thesis by blast
qed

subsection \<open>The message handlers\<close>

text \<open>
  C5. A message resets the lost communications timer if it is a heartbeat whose source is
  not the system itself and has the bit \<open>0x4000\<close>, or a vehicle medium reporting
  underwater; any other message leaves the timer as it is. In particular the underwater
  medium resets the timer in every state, whatever was received before.
\<close>

theorem consume_resets_lost_coms_timer:
  "m_lost_coms_timer (consume wgs msg s) =
     (if (case msg of
            IMC_Heartbeat src \<Rightarrow> src \<noteq> system_id s \<and> src AND 0x4000 \<noteq> 0
          | IMC_VehicleMedium medium \<Rightarrow> medium = VM_UNDERWATER
          | _ \<Rightarrow> False)
      then reset (m_lost_coms_timer s)
      else m_lost_coms_timer s) \<and>
   m_lost_coms_timer (consume wgs (IMC_VehicleMedium VM_UNDERWATER) s) =
     reset (m_lost_coms_timer s)"
  by (cases msg) (simp_all add: handler_defs isUnderwater_def Let_def)

text \<open>
  After scenario B the timer stands at 700 seconds: a heartbeat from the console
  \<open>0x4001\<close> and the underwater medium reset it; a heartbeat from the vehicle
  \<open>0x0016\<close>, one from the system itself and the surface medium do not.
\<close>

theorem consume_resets_lost_coms_timer_witness:
  "elapsed (m_lost_coms_timer (fst (run example_distance scenario_B (example_start example_args)))) = 700 \<and>
   elapsed (m_lost_coms_timer (consume example_distance (IMC_Heartbeat 0x4001)
      (fst (run example_distance scenario_B (example_start example_args))))) = 0 \<and>
   elapsed (m_lost_coms_timer (consume example_distance (IMC_Heartbeat 0x0016)
      (fst (run example_distance scenario_B (example_start example_args))))) = 700 \<and>
   elapsed (m_lost_coms_timer (consume example_distance (IMC_Heartbeat 0x0015)
      (fst (run example_distance scenario_B (example_start example_args))))) = 700 \<and>
   elapsed (m_lost_coms_timer (consume example_distance (IMC_VehicleMedium VM_UNDERWATER)
      (fst (run example_distance scenario_B (example_start example_args))))) = 0 \<and>
   elapsed (m_lost_coms_timer (consume example_distance (IMC_VehicleMedium VM_WATER)
      (fst (run example_distance scenario_B (example_start example_args))))) = 700"
  using consume_resets_lost_coms_timer [of example_distance "IMC_Heartbeat 0x4001"
          "fst (run example_distance scenario_B (example_start example_args))"]
        consume_resets_lost_coms_timer [of example_distance "IMC_Heartbeat 0x0016"
          "fst (run example_distance scenario_B (example_start example_args))"]
        consume_resets_lost_coms_timer [of example_distance "IMC_Heartbeat 0x0015"
          "fst (run example_distance scenario_B (example_start example_args))"]
        consume_resets_lost_coms_timer [of example_distance "IMC_VehicleMedium VM_UNDERWATER"
          "fst (run example_distance scenario_B (example_start example_args))"]
        consume_resets_lost_coms_timer [of example_distance "IMC_VehicleMedium VM_WATER"
          "fst (run example_distance scenario_B (example_start example_args))"]
  by (simp add: example_defs)

text \<open>
  C6. A plan control message whose source is not the system itself clears \<open>m_issued\<close>
  and \<open>m_safety\<close> and changes nothing else; one from the system itself changes nothing.
  After one from another system the verdict no longer rests on the two flags: it is safe
  exactly when the vehicle is near the position, or the lost communications timer has not
  overflowed, or the vehicle is not both in service or error and idle.
\<close>

theorem consume_PlanControl_flags:
  "(src \<noteq> system_id s \<longrightarrow>
      consume wgs (IMC_PlanControl src) s = s\<lparr>m_issued := False, m_safety := False\<rparr>) \<and>
   (src = system_id s \<longrightarrow> consume wgs (IMC_PlanControl src) s = s) \<and>
   (src \<noteq> system_id s \<longrightarrow>
      isSafe (consume wgs (IMC_PlanControl src) s) =
        (m_is_near s \<or> \<not> overflow (m_lost_coms_timer s) \<or> \<not> (m_serv_err s \<and> isIdle s)))"
  by (auto simp add: consume_PlanControl_def isSafe_def isNear_def isIdle_def)

text \<open>
  After scenario B and two ticks both flags are set: a plan control from \<open>0x4001\<close>
  clears them, one from the system itself (\<open>0x0015\<close>) keeps them.
\<close>

theorem consume_PlanControl_flags_witness:
  "m_safety (fst (run example_distance (scenario_B @ [Tick, Tick]) (example_start example_args))) \<and>
   m_issued (fst (run example_distance (scenario_B @ [Tick, Tick]) (example_start example_args))) \<and>
   \<not> m_safety (consume example_distance (IMC_PlanControl 0x4001)
       (fst (run example_distance (scenario_B @ [Tick, Tick]) (example_start example_args)))) \<and>
   \<not> m_issued (consume example_distance (IMC_PlanControl 0x4001)
       (fst (run example_distance (scenario_B @ [Tick, Tick]) (example_start example_args)))) \<and>
   m_safety (consume example_distance (IMC_PlanControl 0x0015)
       (fst (run example_distance (scenario_B @ [Tick, Tick]) (example_start example_args)))) \<and>
   m_issued (consume example_distance (IMC_PlanControl 0x0015)
       (fst (run example_distance (scenario_B @ [Tick, Tick]) (example_start example_args))))"
  using consume_PlanControl_flags [of "0x4001"
          "fst (run example_distance (scenario_B @ [Tick, Tick]) (example_start example_args))"
          example_distance]
        consume_PlanControl_flags [of "0x0015"
          "fst (run example_distance (scenario_B @ [Tick, Tick]) (example_start example_args))"
          example_distance]
  by (simp add: example_defs)

subsection \<open>Ticks in safety mode\<close>

text \<open>
  No tick clears \<open>m_safety\<close>, and of the messages only a plan control from another
  system does; while it is set the verdict is safe, and the identifiers a safe tick can
  send are \<open>surface\<close>, \<open>sk\<close>, \<open>safety_surface\<close> and \<open>safety_sk\<close>.
\<close>

lemma step_system_id: "system_id (fst (step wgs e s)) = system_id s"
proof (cases e)
  case (Deliver msg)
  then show ?thesis by (cases msg) (simp_all add: handler_defs Let_def)
next
  case Tick
  then show ?thesis by (simp add: task_def task_issue_def goToSafety_def Let_def)
next
  case (Elapse d)
  then show ?thesis by simp
qed

lemma task_keeps_safety: "m_safety s \<Longrightarrow> m_safety (fst (task s))"
  by (simp add: task_def task_issue_def goToSafety_def Let_def)

lemma step_keeps_safety:
  assumes "m_safety s" and "\<forall>src. e = Deliver (IMC_PlanControl src) \<longrightarrow> src = system_id s"
  shows "m_safety (fst (step wgs e s))"
proof (cases e)
  case (Deliver msg)
  with assms show ?thesis by (cases msg) (simp_all add: handler_defs Let_def)
next
  case Tick
  with assms(1) show ?thesis by (simp add: task_keeps_safety)
next
  case (Elapse d)
  with assms(1) show ?thesis by simp
qed

lemma safety_isSafe: "m_safety s \<Longrightarrow> isSafe s"
  by (simp add: isSafe_def)

lemma task_no_safety_zone:
  assumes "m_safety s" and "Dispatch pg \<in> set (snd (task s))"
  shows "plan_id pg \<noteq> ''safety_zone''"
proof -
  from assms(1) have "isSafe s" by (rule safety_isSafe)
  with assms(2) show ?thesis
    by (auto simp add: task_def task_issue_def Let_def split: if_splits)
qed

lemma step_no_safety_zone:
  assumes "m_safety s" and "Dispatch pg \<in> set (snd (step wgs e s))"
  shows "plan_id pg \<noteq> ''safety_zone''"
  using assms by (cases e) (simp_all add: task_no_safety_zone)

lemma run_no_safety_zone:
  assumes "m_safety s"
    and "\<forall>e\<in>set evs. \<forall>src. e = Deliver (IMC_PlanControl src) \<longrightarrow> src = system_id s"
  shows "m_safety (fst (run wgs evs s)) \<and>
         (\<forall>pg. Dispatch pg \<in> set (snd (run wgs evs s)) \<longrightarrow> plan_id pg \<noteq> ''safety_zone'')"
  using assms
proof (induction evs arbitrary: s)
  case Nil
  then show ?case by simp
next
  case (Cons e es)
  let ?s1 = "fst (step wgs e s)"
  from Cons.prems have s1: "m_safety ?s1" by (simp add: step_keeps_safety)
  from Cons.prems(2) have
    "\<forall>e\<in>set es. \<forall>src. e = Deliver (IMC_PlanControl src) \<longrightarrow> src = system_id ?s1"
    by (simp add: step_system_id)
  with s1 have ih: "m_safety (fst (run wgs es ?s1)) \<and>
         (\<forall>pg. Dispatch pg \<in> set (snd (run wgs es ?s1)) \<longrightarrow> plan_id pg \<noteq> ''safety_zone'')"
    by (rule Cons.IH)
  have "plan_id pg \<noteq> ''safety_zone''" if "Dispatch pg \<in> set (snd (step wgs e s))" for pg
    using Cons.prems(1) that by (rule step_no_safety_zone)
  with ih show ?case by (auto simp add: split_beta)
qed

text \<open>
  C8. In every state with \<open>m_safety\<close> set the verdict is safe, and any number of ticks
  from it sends no request for the plan \<open>safety_zone\<close>. The same holds for ticks with
  time passing and messages arriving in between, as long as no plan control from another
  system arrives: \<open>m_safety\<close> stays set and no \<open>safety_zone\<close> request is sent.
\<close>

theorem safety_mode_no_redispatch:
  assumes "m_safety s"
  shows "isSafe s \<and>
     (\<forall>pg. Dispatch pg \<in> set (snd (run wgs (replicate n Tick) s)) \<longrightarrow>
            plan_id pg \<noteq> ''safety_zone'') \<and>
     ((\<forall>e\<in>set evs. \<forall>src. e = Deliver (IMC_PlanControl src) \<longrightarrow> src = system_id s) \<longrightarrow>
        m_safety (fst (run wgs evs s)) \<and>
        (\<forall>pg. Dispatch pg \<in> set (snd (run wgs evs s)) \<longrightarrow> plan_id pg \<noteq> ''safety_zone''))"
proof (intro conjI impI)
  from assms show "isSafe s" by (rule safety_isSafe)
next
  have "\<forall>e\<in>set (replicate n Tick). \<forall>src. e = Deliver (IMC_PlanControl src) \<longrightarrow> src = system_id s"
    by simp
  with assms show "\<forall>pg. Dispatch pg \<in> set (snd (run wgs (replicate n Tick) s)) \<longrightarrow>
            plan_id pg \<noteq> ''safety_zone''"
    using run_no_safety_zone [of s "replicate n Tick" wgs] by blast
next
  assume ok: "\<forall>e\<in>set evs. \<forall>src. e = Deliver (IMC_PlanControl src) \<longrightarrow> src = system_id s"
  with assms show "m_safety (fst (run wgs evs s))"
    using run_no_safety_zone [of s evs wgs] by blast
  from assms ok show "\<forall>pg. Dispatch pg \<in> set (snd (run wgs evs s)) \<longrightarrow> plan_id pg \<noteq> ''safety_zone''"
    using run_no_safety_zone [of s evs wgs] by blast
qed

text \<open>
  Scenario B and a tick have sent the vehicle to the safety zone. Two more ticks send
  \<open>sk\<close> twice; 700 more seconds without heartbeat, a tick, a dive and a tick send no
  \<open>safety_zone\<close> either.
\<close>

theorem safety_mode_no_redispatch_witness:
  "m_safety (example_state example_args (scenario_B @ [Tick])) \<and>
   snd (run example_distance (replicate 2 Tick)
          (example_state example_args (scenario_B @ [Tick]))) =
     [Dispatch \<lparr>op = OP_REQUEST, cmd = CMD_EXECUTE, plan_id = ''sk'',
                params = ''calibrate=false;ignore_errors=true''\<rparr>,
      SetEntityState ESTA_NORMAL CODE_ACTIVE,
      Dispatch \<lparr>op = OP_REQUEST, cmd = CMD_EXECUTE, plan_id = ''sk'',
                params = ''calibrate=false;ignore_errors=true''\<rparr>,
      SetEntityState ESTA_NORMAL CODE_ACTIVE] \<and>
   Dispatch \<lparr>op = OP_REQUEST, cmd = CMD_EXECUTE, plan_id = ''safety_zone'',
             params = ''calibrate=false;ignore_errors=true''\<rparr>
     \<notin> set (snd (run example_distance
                     [Elapse 700, Tick, Deliver (IMC_VehicleMedium VM_UNDERWATER), Tick]
                     (example_state example_args (scenario_B @ [Tick]))))"
proof -
  let ?s = "example_state example_args (scenario_B @ [Tick])"
  let ?evs = "[Elapse 700, Tick, Deliver (IMC_VehicleMedium VM_UNDERWATER), Tick]"
  let ?pg = "\<lparr>op = OP_REQUEST, cmd = CMD_EXECUTE, plan_id = ''safety_zone'',
              params = ''calibrate=false;ignore_errors=true''\<rparr>"
  have active: "m_safety ?s" by (simp add: example_defs)
  have ticks: "snd (run example_distance (replicate 2 Tick) ?s) =
     [Dispatch \<lparr>op = OP_REQUEST, cmd = CMD_EXECUTE, plan_id = ''sk'',
                params = ''calibrate=false;ignore_errors=true''\<rparr>,
      SetEntityState ESTA_NORMAL CODE_ACTIVE,
      Dispatch \<lparr>op = OP_REQUEST, cmd = CMD_EXECUTE, plan_id = ''sk'',
                params = ''calibrate=false;ignore_errors=true''\<rparr>,
      SetEntityState ESTA_NORMAL CODE_ACTIVE]"
    by (simp add: example_defs numeral_2_eq_2)
  have local: "\<forall>e\<in>set ?evs. \<forall>src. e = Deliver (IMC_PlanControl src) \<longrightarrow> src = system_id ?s"
    by simp
  from safety_mode_no_redispatch [OF active, of example_distance 2 ?evs] local
  have "\<forall>pg. Dispatch pg \<in> set (snd (run example_distance ?evs ?s)) \<longrightarrow>
              plan_id pg \<noteq> ''safety_zone''"
    by (elim conjE impE) assumption
  then have "Dispatch ?pg \<in> set (snd (run example_distance ?evs ?s)) \<longrightarrow>
               plan_id ?pg \<noteq> ''safety_zone''"
    by (rule spec)
  then have "Dispatch ?pg \<notin> set (snd (run example_distance ?evs ?s))"
    by auto
  with active ticks show ?thesis by (intro conjI)
qed

subsection \<open>The position update\<close>

text \<open>
  A position update sets \<open>m_is_near\<close> by the distance to the point of latitude 0 and
  longitude 0 alone: it is set exactly when that distance is at most \<open>c_safety_dist\<close>.
\<close>

lemma consume_EstimatedState_near:
  "m_is_near (consume wgs (IMC_EstimatedState lat lon) s) = (wgs lat lon 0 0 0 0 \<le> c_safety_dist)"
  by (simp add: consume_EstimatedState_def Let_def)

text \<open>
  C7. The task has no safety location to configure, and \<open>isNear\<close> is documented to
  return true when the safety location is not defined. The started task is near; a
  position update at latitude 0.71 and longitude -0.15 (radians) clears \<open>m_is_near\<close>,
  and in scenario B, which contains this update, the tick sends the vehicle to the safety
  zone.
\<close>

theorem position_update_far_from_origin:
  "m_is_near (example_start example_args) \<and>
   \<not> m_is_near (consume example_distance (IMC_EstimatedState (71 / 100) (- 15 / 100))
                  (example_start example_args)) \<and>
   snd (run example_distance (scenario_B @ [Tick]) (example_start example_args)) =
     [Dispatch \<lparr>op = OP_REQUEST, cmd = CMD_EXECUTE, plan_id = ''safety_zone'',
                params = ''calibrate=false;ignore_errors=true''\<rparr>]"
  by (simp add: example_defs)

subsection \<open>The constructed task\<close>

text \<open>
  The constructor sets \<open>m_is_near\<close> to true, so the five members are not all empty or
  false in the constructed task.
\<close>

theorem Task_ctor_near_counterexample:
  "\<not> (m_dr (example_ctor example_args) = GOT_NOTHING \<and>
      m_serv_err (example_ctor example_args) = False \<and>
      m_issued (example_ctor example_args) = False \<and>
      m_safety (example_ctor example_args) = False \<and>
      m_is_near (example_ctor example_args) = False)"
  by (simp add: example_ctor_def Task_ctor_def)

text \<open>
  C9, as amended. In the constructed task no readiness bit is set (\<open>m_dr\<close> is
  \<open>GOT_NOTHING\<close>), \<open>m_serv_err\<close>, \<open>m_issued\<close> and \<open>m_safety\<close> are false, and
  \<open>m_is_near\<close> is true.
\<close>

theorem Task_ctor_fields:
  "m_dr (Task_ctor sid args lt ft pcs0 pg0) = GOT_NOTHING \<and>
   m_dr (Task_ctor sid args lt ft pcs0 pg0) AND GOT_ALL = 0 \<and>
   m_serv_err (Task_ctor sid args lt ft pcs0 pg0) = False \<and>
   m_issued (Task_ctor sid args lt ft pcs0 pg0) = False \<and>
   m_safety (Task_ctor sid args lt ft pcs0 pg0) = False \<and>
   m_is_near (Task_ctor sid args lt ft pcs0 pg0) = True"
  by (simp add: Task_ctor_def GOT_NOTHING_def)

subsection \<open>The fail timer on a tick that sends nothing\<close>

text \<open>
  Scenario E, 100 seconds later, with keep station and ascend both disabled: the vehicle
  is underwater, the verdict is safe, the last outcome is failure and the fail timer has
  overflowed, but the tick leaves at the test of the two flags, before the fail timer is
  looked at, and changes nothing. With ascend alone disabled the tick passes that test,
  resets the fail timer and sends nothing, but it has also overwritten the plan identifier
  kept in the request, from empty to \<open>safety_\<close>.
\<close>

theorem fail_timer_reset_counterexample:
  "m_dr (example_state (example_args\<lparr>sk := False, asc := False\<rparr>) (scenario_E @ [Elapse 100])) = GOT_ALL \<and>
   inWater (m_medium (example_state (example_args\<lparr>sk := False, asc := False\<rparr>) (scenario_E @ [Elapse 100]))) \<and>
   isSafe (example_state (example_args\<lparr>sk := False, asc := False\<rparr>) (scenario_E @ [Elapse 100])) \<and>
   hasFailed (example_state (example_args\<lparr>sk := False, asc := False\<rparr>) (scenario_E @ [Elapse 100])) \<and>
   overflow (m_fail_timer (example_state (example_args\<lparr>sk := False, asc := False\<rparr>) (scenario_E @ [Elapse 100]))) \<and>
   isUnderwater (m_medium (example_state (example_args\<lparr>sk := False, asc := False\<rparr>) (scenario_E @ [Elapse 100]))) \<and>
   \<not> asc (m_args (example_state (example_args\<lparr>sk := False, asc := False\<rparr>) (scenario_E @ [Elapse 100]))) \<and>
   task (example_state (example_args\<lparr>sk := False, asc := False\<rparr>) (scenario_E @ [Elapse 100])) =
     (example_state (example_args\<lparr>sk := False, asc := False\<rparr>) (scenario_E @ [Elapse 100]), []) \<and>
   m_fail_timer (fst (task (example_state (example_args\<lparr>sk := False, asc := False\<rparr>) (scenario_E @ [Elapse 100])))) \<noteq>
     reset (m_fail_timer (example_state (example_args\<lparr>sk := False, asc := False\<rparr>) (scenario_E @ [Elapse 100]))) \<and>
   snd (task (example_state (example_args\<lparr>asc := False\<rparr>) (scenario_E @ [Elapse 100]))) = [] \<and>
   plan_id (m_pg (example_state (example_args\<lparr>asc := False\<rparr>) (scenario_E @ [Elapse 100]))) = [] \<and>
   plan_id (m_pg (fst (task (example_state (example_args\<lparr>asc := False\<rparr>) (scenario_E @ [Elapse 100]))))) =
     ''safety_''"
  by (simp add: example_defs)

text \<open>
  C10, as amended. On a tick with all data received, the vehicle in water, a safe verdict,
  the vehicle state service or error, the plan control state idle, the last outcome
  failure and the fail timer overflowed: if the vehicle is underwater with ascend disabled
  and keep station enabled, or at the surface with keep station disabled and ascend
  enabled, then nothing is sent, the fail timer is reset, the plan identifier kept in the
  request is left at \<open>safety_\<close>, and nothing else changes.
\<close>

theorem fail_timer_reset_without_dispatch:
  assumes "m_dr s = GOT_ALL" and "inWater (m_medium s)" and "isSafe s"
    and "m_serv_err s" and "isIdle s"
    and "hasFailed s" and "overflow (m_fail_timer s)"
    and "isUnderwater (m_medium s) \<and> \<not> asc (m_args s) \<and> sk (m_args s) \<or>
         \<not> isUnderwater (m_medium s) \<and> \<not> sk (m_args s) \<and> asc (m_args s)"
  shows "task s =
     (s\<lparr>m_pg := (m_pg s)\<lparr>plan_id := ''safety_''\<rparr>,
        m_fail_timer := reset (m_fail_timer s)\<rparr>, [])"
  using assms
  by (auto simp add: task_def task_issue_def hasFailed_def Let_def)

text \<open>Scenario E, 100 seconds later, with ascend disabled and keep station enabled.\<close>

theorem fail_timer_reset_without_dispatch_witness:
  "task (example_state (example_args\<lparr>asc := False\<rparr>) (scenario_E @ [Elapse 100])) =
     ((example_state (example_args\<lparr>asc := False\<rparr>) (scenario_E @ [Elapse 100]))
        \<lparr>m_pg := \<lparr>op = OP_REQUEST, cmd = CMD_EXECUTE, plan_id = ''safety_'',
                  params = ''calibrate=false;ignore_errors=true''\<rparr>,
         m_fail_timer := \<lparr>threshold = 60, elapsed = 0\<rparr>\<rparr>, [])"
proof -
  let ?s = "example_state (example_args\<lparr>asc := False\<rparr>) (scenario_E @ [Elapse 100])"
  have "m_dr ?s = GOT_ALL" and "inWater (m_medium ?s)" and "isSafe ?s"
    and "m_serv_err ?s" and "isIdle ?s" and "hasFailed ?s" and "overflow (m_fail_timer ?s)"
    and "isUnderwater (m_medium ?s) \<and> \<not> asc (m_args ?s) \<and> sk (m_args ?s) \<or>
         \<not> isUnderwater (m_medium ?s) \<and> \<not> sk (m_args ?s) \<and> asc (m_args ?s)"
    by (simp_all add: example_defs)
  from fail_timer_reset_without_dispatch [OF this]
  show ?thesis by (simp add: example_defs)
qed

end
